theory Spec2Isabelle
  imports Complex_Main "HOL-Library.Word"
begin

unbundle bit_operations_syntax

section \<open>Python values and exceptions\<close>

text \<open>
  The script \<^verbatim>\<open>help.py\<close> is one straight-line module body. Its inputs are the
  two readings of the wall clock (\<^verbatim>\<open>datetime.utcnow()\<close> is called twice), the local
  time zone of the process (read by \<^verbatim>\<open>datetime.timestamp()\<close> on a naive value) and
  the two module constants \<^verbatim>\<open>secret_key\<close> and \<^verbatim>\<open>algorithm\<close>. Every exception a
  line can raise is a value of \<open>error\<close>; an uncaught one ends the run.
\<close>

datatype pyval = PyStr string | PyInt int

text \<open>A dict literal keeps insertion order, which \<^verbatim>\<open>json.dumps\<close> follows.\<close>

type_synonym pydict = "(string \<times> pyval) list"

datatype error =
    KeyError string
  | OverflowError
  | ValueError
  | TypeError
  | NotImplementedError
  | InvalidKeyError
  | DecodeError
  | InvalidAlgorithmError
  | InvalidSignatureError
  | ExpiredSignatureError
  | ImmatureSignatureError

definition getitem :: "(string \<times> 'v) list \<Rightarrow> string \<Rightarrow> error + 'v" where
  "getitem d k = (case map_of d k of None \<Rightarrow> Inl (KeyError k) | Some v \<Rightarrow> Inr v)"

definition and_then :: "error + 'a \<Rightarrow> ('a \<Rightarrow> error + 'b) \<Rightarrow> error + 'b" where
  \<comment> \<open>sequencing of two statements: an exception of the first skips the second\<close>
  "and_then m f = (case m of Inl e \<Rightarrow> Inl e | Inr x \<Rightarrow> f x)"

section \<open>Naive datetimes\<close>

text \<open>
  A naive \<^verbatim>\<open>datetime\<close> is a calendar reading without a zone. It is held as the
  number of microseconds between \<^verbatim>\<open>datetime(1970, 1, 1)\<close> and the reading, the value
  of \<^verbatim>\<open>(d - datetime(1970, 1, 1)) // timedelta(microseconds=1)\<close>. The type ranges from
  \<^verbatim>\<open>datetime.min\<close> (year 1) to \<^verbatim>\<open>datetime.max\<close> (end of year 9999).
\<close>

type_synonym datetime = int

definition datetime_min :: datetime where
  "datetime_min = - 62135596800 * 1000000"

definition datetime_max :: datetime where
  "datetime_max = 253402300799 * 1000000 + 999999"

definition timedelta :: "int \<Rightarrow> int" where
  \<comment> \<open>\<^verbatim>\<open>timedelta(days=n)\<close>, in microseconds\<close>
  "timedelta days = days * 86400 * 1000000"

definition dt_add :: "datetime \<Rightarrow> int \<Rightarrow> error + datetime" where
  \<comment> \<open>\<^verbatim>\<open>datetime.__add__\<close>: raises OverflowError outside the range of the type\<close>
  "dt_add d delta =
     (let r = d + delta
      in if r < datetime_min \<or> datetime_max < r then Inl OverflowError else Inr r)"

definition local_seconds :: "(int \<Rightarrow> int) \<Rightarrow> int \<Rightarrow> error + int" where
  \<comment> \<open>the helper \<^verbatim>\<open>local(u)\<close> of \<^verbatim>\<open>datetime._mktime\<close>: \<^verbatim>\<open>time.localtime(u)\<close> read back as
      seconds on the naive calendar. \<open>local\<close> is the zone of the process; a local
      time outside the years 1 to 9999 raises ValueError.\<close>
  "local_seconds local u =
     (if local u < - 62135596800 \<or> 253402300799 < local u then Inl ValueError
      else Inr (local u))"

definition mktime :: "(int \<Rightarrow> int) \<Rightarrow> datetime \<Rightarrow> error + int" where
  \<comment> \<open>\<^verbatim>\<open>datetime._mktime\<close> with \<^verbatim>\<open>fold = 0\<close>: the naive reading is taken as LOCAL
      time and the equation \<^verbatim>\<open>t = local(u)\<close> is solved for \<^verbatim>\<open>u\<close>\<close>
  "mktime local d =
     (let t = d div 1000000
      in and_then (local_seconds local t) (\<lambda>lt.
         let a = lt - t; u1 = t - a
         in and_then (local_seconds local u1) (\<lambda>t1.
            and_then (if t1 = t
                      then and_then (local_seconds local (u1 - 86400))
                             (\<lambda>lt2. Inr (lt2 - (u1 - 86400)))
                      else Inr (t1 - u1)) (\<lambda>b.
            if t1 = t \<and> a = b then Inr u1
            else let u2 = t - b
                 in and_then (local_seconds local u2) (\<lambda>t2.
                    if t2 = t then Inr u2 else if t1 = t then Inr u1
                    else Inr (max u1 u2))))))"

definition round_half_even :: "real \<Rightarrow> int" where
  \<comment> \<open>the nearest integer, the even one of two equally near\<close>
  "round_half_even y =
     (let f = \<lfloor>y\<rfloor>
      in if y - of_int f < 1 / 2 then f
         else if 1 / 2 < y - of_int f then f + 1
         else if even f then f else f + 1)"

definition fl :: "real \<Rightarrow> real" where
  \<comment> \<open>the IEEE 754 double nearest to \<open>x\<close> (53-bit significand, ties to even), for
      \<open>x\<close> in the normal range, where every value of this program lies\<close>
  "fl x = (if x = 0 then 0
           else let q = 2 powr of_int (\<lfloor>log 2 \<bar>x\<bar>\<rfloor> - 52)
                in of_int (round_half_even (x / q)) * q)"

definition timestamp :: "(int \<Rightarrow> int) \<Rightarrow> datetime \<Rightarrow> error + real" where
  \<comment> \<open>\<^verbatim>\<open>datetime.timestamp()\<close> of a naive value: \<^verbatim>\<open>s + self.microsecond / 1e6\<close>, a division
      and an addition of doubles\<close>
  "timestamp local d =
     and_then (mktime local d) (\<lambda>s. Inr (fl (of_int s + fl (of_int (d mod 1000000) / 1000000))))"

definition py_int :: "real \<Rightarrow> int" where
  \<comment> \<open>\<^verbatim>\<open>int(x)\<close> of a float truncates towards zero\<close>
  "py_int x = (if 0 \<le> x then \<lfloor>x\<rfloor> else \<lceil>x\<rceil>)"

definition int_timestamp :: "(int \<Rightarrow> int) \<Rightarrow> datetime \<Rightarrow> error + int" where
  \<comment> \<open>\<^verbatim>\<open>int(d.timestamp())\<close>\<close>
  "int_timestamp local d = and_then (timestamp local d) (\<lambda>x. Inr (py_int x))"

definition utc :: "int \<Rightarrow> int" where
  \<comment> \<open>\<^verbatim>\<open>time.localtime\<close> of a process whose zone is UTC\<close>
  "utc u = u"

definition fixed_offset :: "int \<Rightarrow> int \<Rightarrow> int" where
  \<comment> \<open>\<^verbatim>\<open>time.localtime\<close> of a zone that is always \<open>off\<close> seconds east of UTC\<close>
  "fixed_offset off u = u + off"

section \<open>The script: constants and claims mapping\<close>

definition secret_key :: string where
  "secret_key = ''your_super_secret_jwt_key_here_make_it_long_and_secure_2024''"

definition algorithm :: string where
  "algorithm = ''HS256''"

definition user_data :: "(string \<times> string) list" where
  "user_data =
     [(''user_id'', ''admin''),
      (''username'', ''admin@xeno.com''),
      (''email'', ''admin@xeno.com''),
      (''role'', ''admin'')]"

definition expiration_time :: "datetime \<Rightarrow> error + datetime" where
  \<comment> \<open>line 17; \<open>now1\<close> is the first reading of the clock\<close>
  "expiration_time now1 = dt_add now1 (timedelta 365)"

definition issued_at :: "datetime \<Rightarrow> datetime" where
  \<comment> \<open>line 18; \<open>now2\<close> is the second reading of the clock\<close>
  "issued_at now2 = now2"

definition payload :: "(int \<Rightarrow> int) \<Rightarrow> datetime \<Rightarrow> datetime \<Rightarrow> error + pydict" where
  \<comment> \<open>lines 20-27, given the values of \<^verbatim>\<open>expiration_time\<close> and \<^verbatim>\<open>issued_at\<close>\<close>
  "payload local exp_time iat_time =
     and_then (getitem user_data ''user_id'') (\<lambda>sub.
     and_then (getitem user_data ''email'') (\<lambda>email.
     and_then (getitem user_data ''username'') (\<lambda>username.
     and_then (getitem user_data ''role'') (\<lambda>role.
     and_then (int_timestamp local exp_time) (\<lambda>exp.
     and_then (int_timestamp local iat_time) (\<lambda>iat.
       Inr [(''sub'', PyStr sub),
            (''email'', PyStr email),
            (''username'', PyStr username),
            (''role'', PyStr role),
            (''exp'', PyInt exp),
            (''iat'', PyInt iat)]))))))"

definition build_payload :: "(int \<Rightarrow> int) \<Rightarrow> datetime \<Rightarrow> datetime \<Rightarrow> error + pydict" where
  \<comment> \<open>lines 17-27 in sequence\<close>
  "build_payload local now1 now2 =
     and_then (expiration_time now1) (\<lambda>exp_time.
       payload local exp_time (issued_at now2))"

section \<open>Bytes\<close>

text \<open>
  A \<^verbatim>\<open>bytes\<close> value is a \<open>string\<close>, one \<open>char\<close> per byte. A \<^verbatim>\<open>str\<close> is a
  \<open>string\<close> as well, one \<open>char\<close> per code point; code points from 256 on are not
  represented (every \<^verbatim>\<open>str\<close> the script hands to the library is ASCII). What follows
  in this and the next five sections is library code the script calls: the standard
  library's \<^verbatim>\<open>hashlib\<close>, \<^verbatim>\<open>hmac\<close>, \<^verbatim>\<open>base64\<close> and \<^verbatim>\<open>json\<close>, and PyJWT 2.x.
\<close>

definition byte :: "nat \<Rightarrow> char" where
  "byte n = char_of n"

definition ord :: "char \<Rightarrow> nat" where
  "ord c = of_char c"

definition force_bytes :: "string \<Rightarrow> string" where
  \<comment> \<open>\<^verbatim>\<open>jwt.utils.force_bytes\<close> of a \<^verbatim>\<open>str\<close>: \<^verbatim>\<open>value.encode("utf-8")\<close>\<close>
  "force_bytes s =
     concat (map (\<lambda>c. if ord c < 128 then [c]
                        else [byte (192 + ord c div 64), byte (128 + ord c mod 64)]) s)"

primrec be_bytes :: "nat \<Rightarrow> nat \<Rightarrow> string" where
  \<comment> \<open>the \<open>k\<close> low bytes of \<open>n\<close>, most significant first\<close>
  "be_bytes 0 n = []"
| "be_bytes (Suc k) n = be_bytes k (n div 256) @ [byte (n mod 256)]"

definition be_word :: "string \<Rightarrow> 'a::len word" where
  \<comment> \<open>the word whose big-endian bytes are \<open>bs\<close>\<close>
  "be_word bs = foldl (\<lambda>w c. push_bit 8 w OR of_nat (ord c)) 0 bs"

definition chunks :: "nat \<Rightarrow> 'a list \<Rightarrow> 'a list list" where
  \<comment> \<open>the full \<open>k\<close>-element pieces of \<open>xs\<close>, in order\<close>
  "chunks k xs = map (\<lambda>i. take k (drop (k * i) xs)) [0..<length xs div k]"

section \<open>SHA-2 (FIPS 180-4), as \<^verbatim>\<open>hashlib\<close> computes it\<close>

text \<open>
  SHA-256 works on 32-bit words and 64-byte blocks, SHA-384 and SHA-512 on 64-bit words
  and 128-byte blocks. One definition serves both word sizes; the rotation amounts,
  the round constants and the initial hash value are parameters.
\<close>

definition rotr :: "nat \<Rightarrow> 'a::len word \<Rightarrow> 'a word" where
  "rotr n x = drop_bit n x OR push_bit (LENGTH('a) - n) x"

definition Ch :: "'a::len word \<Rightarrow> 'a word \<Rightarrow> 'a word \<Rightarrow> 'a word" where
  "Ch x y z = (x AND y) XOR (NOT x AND z)"

definition Maj :: "'a::len word \<Rightarrow> 'a word \<Rightarrow> 'a word \<Rightarrow> 'a word" where
  "Maj x y z = (x AND y) XOR (x AND z) XOR (y AND z)"

record sha_rot =
  big0 :: "nat \<times> nat \<times> nat"
  big1 :: "nat \<times> nat \<times> nat"
  small0 :: "nat \<times> nat \<times> nat"
  small1 :: "nat \<times> nat \<times> nat"

definition rot256 :: sha_rot where
  "rot256 = \<lparr>big0 = (2, 13, 22), big1 = (6, 11, 25), small0 = (7, 18, 3), small1 = (17, 19, 10)\<rparr>"

definition rot512 :: sha_rot where
  "rot512 = \<lparr>big0 = (28, 34, 39), big1 = (14, 18, 41), small0 = (1, 8, 7), small1 = (19, 61, 6)\<rparr>"

definition Sigma :: "nat \<times> nat \<times> nat \<Rightarrow> 'a::len word \<Rightarrow> 'a word" where
  "Sigma r x = (case r of (a, b, c) \<Rightarrow> rotr a x XOR rotr b x XOR rotr c x)"

definition sigma :: "nat \<times> nat \<times> nat \<Rightarrow> 'a::len word \<Rightarrow> 'a word" where
  "sigma r x = (case r of (a, b, c) \<Rightarrow> rotr a x XOR rotr b x XOR drop_bit c x)"

text \<open>
  The round constants are the leading fraction bits of the cube roots of the first
  primes, the initial hash values those of the square roots; they are written in
  decimal (1116352408 is 428a2f98 in hexadecimal).
\<close>

definition K256 :: "32 word list" where
  "K256 =
     [1116352408, 1899447441, 3049323471, 3921009573,
      961987163, 1508970993, 2453635748, 2870763221,
      3624381080, 310598401, 607225278, 1426881987,
      1925078388, 2162078206, 2614888103, 3248222580,
      3835390401, 4022224774, 264347078, 604807628,
      770255983, 1249150122, 1555081692, 1996064986,
      2554220882, 2821834349, 2952996808, 3210313671,
      3336571891, 3584528711, 113926993, 338241895,
      666307205, 773529912, 1294757372, 1396182291,
      1695183700, 1986661051, 2177026350, 2456956037,
      2730485921, 2820302411, 3259730800, 3345764771,
      3516065817, 3600352804, 4094571909, 275423344,
      430227734, 506948616, 659060556, 883997877,
      958139571, 1322822218, 1537002063, 1747873779,
      1955562222, 2024104815, 2227730452, 2361852424,
      2428436474, 2756734187, 3204031479, 3329325298]"

definition H256 :: "32 word list" where
  "H256 =
     [1779033703, 3144134277, 1013904242, 2773480762,
      1359893119, 2600822924, 528734635, 1541459225]"

definition K512 :: "64 word list" where
  "K512 =
     [4794697086780616226, 8158064640168781261, 13096744586834688815,
      16840607885511220156, 4131703408338449720, 6480981068601479193,
      10538285296894168987, 12329834152419229976, 15566598209576043074,
      1334009975649890238, 2608012711638119052, 6128411473006802146,
      8268148722764581231, 9286055187155687089, 11230858885718282805,
      13951009754708518548, 16472876342353939154, 17275323862435702243,
      1135362057144423861, 2597628984639134821, 3308224258029322869,
      5365058923640841347, 6679025012923562964, 8573033837759648693,
      10970295158949994411, 12119686244451234320, 12683024718118986047,
      13788192230050041572, 14330467153632333762, 15395433587784984357,
      489312712824947311, 1452737877330783856, 2861767655752347644,
      3322285676063803686, 5560940570517711597, 5996557281743188959,
      7280758554555802590, 8532644243296465576, 9350256976987008742,
      10552545826968843579, 11727347734174303076, 12113106623233404929,
      14000437183269869457, 14369950271660146224, 15101387698204529176,
      15463397548674623760, 17586052441742319658, 1182934255886127544,
      1847814050463011016, 2177327727835720531, 2830643537854262169,
      3796741975233480872, 4115178125766777443, 5681478168544905931,
      6601373596472566643, 7507060721942968483, 8399075790359081724,
      8693463985226723168, 9568029438360202098, 10144078919501101548,
      10430055236837252648, 11840083180663258601, 13761210420658862357,
      14299343276471374635, 14566680578165727644, 15097957966210449927,
      16922976911328602910, 17689382322260857208, 500013540394364858,
      748580250866718886, 1242879168328830382, 1977374033974150939,
      2944078676154940804, 3659926193048069267, 4368137639120453308,
      4836135668995329356, 5532061633213252278, 6448918945643986474,
      6902733635092675308, 7801388544844847127]"

definition H512 :: "64 word list" where
  "H512 =
     [7640891576956012808, 13503953896175478587, 4354685564936845355,
      11912009170470909681, 5840696475078001361, 11170449401992604703,
      2270897969802886507, 6620516959819538809]"

definition H384 :: "64 word list" where
  "H384 =
     [14680500436340154072, 7105036623409894663, 10473403895298186519,
      1526699215303891257, 7436329637833083697, 10282925794625328401,
      15784041429090275239, 5167115440072839076]"

definition sha_pad :: "nat \<Rightarrow> string \<Rightarrow> string" where
  \<comment> \<open>a one bit, zero bits, and the bit length in the last eighth of a block of \<open>bs\<close> bytes\<close>
  "sha_pad bs m =
     m @ [byte 128]
       @ replicate ((2 * bs - 1 - bs div 8 - length m mod bs) mod bs) (byte 0)
       @ be_bytes (bs div 8) (8 * length m)"

primrec schedule :: "sha_rot \<Rightarrow> nat \<Rightarrow> 'a::len word list \<Rightarrow> 'a word list" where
  \<comment> \<open>\<open>schedule r n w\<close> extends the message schedule \<open>w\<close> by \<open>n\<close> words\<close>
  "schedule r 0 w = w"
| "schedule r (Suc n) w =
     schedule r n
       (w @ [sigma (small1 r) (w ! (length w - 2)) + w ! (length w - 7)
             + sigma (small0 r) (w ! (length w - 15)) + w ! (length w - 16)])"

definition sha_round :: "sha_rot \<Rightarrow> 'a::len word list \<Rightarrow> 'a word \<times> 'a word \<Rightarrow> 'a word list" where
  "sha_round r s kw =
     (case s of [a, b, c, d, e, f, g, h] \<Rightarrow>
        let t1 = h + Sigma (big1 r) e + Ch e f g + fst kw + snd kw;
            t2 = Sigma (big0 r) a + Maj a b c
        in [t1 + t2, a, b, c, d + t1, e, f, g]
      | _ \<Rightarrow> s)"

definition compress :: "sha_rot \<Rightarrow> 'a::len word list \<Rightarrow> 'a word list \<Rightarrow> string \<Rightarrow> 'a word list" where
  "compress r k s block =
     (let w = schedule r (length k - 16) (map be_word (chunks (LENGTH('a) div 8) block))
      in map2 (+) s (foldl (sha_round r) s (zip k w)))"

definition sha2 :: "sha_rot \<Rightarrow> 'a::len word list \<Rightarrow> 'a word list \<Rightarrow> string \<Rightarrow> string" where
  "sha2 r k h0 m =
     concat (map (\<lambda>w. be_bytes (LENGTH('a) div 8) (unat w))
       (foldl (compress r k) h0 (chunks (2 * LENGTH('a)) (sha_pad (2 * LENGTH('a)) m))))"

definition sha256 :: "string \<Rightarrow> string" where
  "sha256 m = sha2 rot256 K256 H256 m"

definition sha512 :: "string \<Rightarrow> string" where
  "sha512 m = sha2 rot512 K512 H512 m"

definition sha384 :: "string \<Rightarrow> string" where
  "sha384 m = take 48 (sha2 rot512 K512 H384 m)"

section \<open>HMAC (RFC 2104), as \<^verbatim>\<open>hmac.new(key, msg, digestmod).digest()\<close> computes it\<close>

definition xor_byte :: "nat \<Rightarrow> char \<Rightarrow> char" where
  "xor_byte k c = byte (ord c XOR k)"

definition hmac_key_block :: "(string \<Rightarrow> string) \<Rightarrow> nat \<Rightarrow> string \<Rightarrow> string" where
  \<comment> \<open>a key longer than the block is hashed first; the key is then filled with zero
      bytes up to the block size\<close>
  "hmac_key_block h bs key =
     (let k = (if bs < length key then h key else key)
      in k @ replicate (bs - length k) (byte 0))"

definition hmac :: "(string \<Rightarrow> string) \<Rightarrow> nat \<Rightarrow> string \<Rightarrow> string \<Rightarrow> string" where
  "hmac h bs key msg =
     (let k = hmac_key_block h bs key
      in h (map (xor_byte 92) k @ h (map (xor_byte 54) k @ msg)))"

section \<open>Base64 (\<^verbatim>\<open>binascii\<close>, \<^verbatim>\<open>base64\<close>) and PyJWT's unpadded URL-safe form\<close>

definition b2a :: "nat \<Rightarrow> char" where
  \<comment> \<open>the character of a six-bit value in the standard alphabet A-Z a-z 0-9 + /\<close>
  "b2a n = (if n < 26 then byte (65 + n) else if n < 52 then byte (71 + n)
            else if n < 62 then byte (n - 4) else if n = 62 then CHR ''+'' else CHR ''/'')"

fun b64encode :: "string \<Rightarrow> string" where
  "b64encode (a # b # c # rest) =
     [b2a (ord a div 4), b2a (ord a mod 4 * 16 + ord b div 16),
      b2a (ord b mod 16 * 4 + ord c div 64), b2a (ord c mod 64)] @ b64encode rest"
| "b64encode [a, b] =
     [b2a (ord a div 4), b2a (ord a mod 4 * 16 + ord b div 16), b2a (ord b mod 16 * 4), CHR ''='']"
| "b64encode [a] = [b2a (ord a div 4), b2a (ord a mod 4 * 16), CHR ''='', CHR ''='']"
| "b64encode [] = []"

definition urlsafe_b64encode :: "string \<Rightarrow> string" where
  \<comment> \<open>\<^verbatim>\<open>base64.b64encode(s).translate(_urlsafe_encode_translation)\<close>\<close>
  "urlsafe_b64encode s =
     map (\<lambda>c. if c = CHR ''+'' then CHR ''-'' else if c = CHR ''/'' then CHR ''_'' else c)
       (b64encode s)"

definition base64url_encode :: "string \<Rightarrow> string" where
  \<comment> \<open>\<^verbatim>\<open>jwt.utils.base64url_encode\<close>: \<^verbatim>\<open>urlsafe_b64encode(input).replace(b"=", b"")\<close>\<close>
  "base64url_encode s = filter (\<lambda>c. c \<noteq> CHR ''='') (urlsafe_b64encode s)"

section \<open>JSON text of a claims mapping (\<^verbatim>\<open>json.dumps\<close>)\<close>

definition hexdigit :: "nat \<Rightarrow> char" where
  "hexdigit n = (if n < 10 then byte (48 + n) else byte (87 + n))"

definition escape_char :: "char \<Rightarrow> string" where
  \<comment> \<open>\<^verbatim>\<open>json.encoder.py_encode_basestring_ascii\<close>: the quote and the backslash get a
      backslash, the five named control characters their letter, everything else
      outside space to tilde a \<^verbatim>\<open>\uXXXX\<close> with lower-case hex digits\<close>
  "escape_char c =
     (let n = ord c
      in if n = 34 then [byte 92, byte 34]
         else if n = 92 then [byte 92, byte 92]
         else if n = 8 then [byte 92, CHR ''b'']
         else if n = 12 then [byte 92, CHR ''f'']
         else if n = 10 then [byte 92, CHR ''n'']
         else if n = 13 then [byte 92, CHR ''r'']
         else if n = 9 then [byte 92, CHR ''t'']
         else if 32 \<le> n \<and> n \<le> 126 then [c]
         else [byte 92, CHR ''u'', CHR ''0'', CHR ''0'', hexdigit (n div 16), hexdigit (n mod 16)])"

definition json_str :: "string \<Rightarrow> string" where
  "json_str s = [byte 34] @ concat (map escape_char s) @ [byte 34]"

fun show_nat :: "nat \<Rightarrow> string" where
  "show_nat n = (if n < 10 then [byte (48 + n)] else show_nat (n div 10) @ [byte (48 + n mod 10)])"

declare show_nat.simps [simp del]

definition show_int :: "int \<Rightarrow> string" where
  \<comment> \<open>\<^verbatim>\<open>int.__repr__\<close>\<close>
  "show_int i = (if i < 0 then CHR ''-'' # show_nat (nat (- i)) else show_nat (nat i))"

fun json_value :: "pyval \<Rightarrow> string" where
  "json_value (PyStr s) = json_str s"
| "json_value (PyInt i) = show_int i"

definition json_member :: "string \<times> pyval \<Rightarrow> string" where
  "json_member kv = json_str (fst kv) @ '':'' @ json_value (snd kv)"

fun join :: "string \<Rightarrow> string list \<Rightarrow> string" where
  \<comment> \<open>\<^verbatim>\<open>sep.join(parts)\<close>\<close>
  "join sep [] = []"
| "join sep [x] = x"
| "join sep (x # y # ys) = x @ sep @ join sep (y # ys)"

definition json_dumps :: "pydict \<Rightarrow> string" where
  \<comment> \<open>\<^verbatim>\<open>json.dumps(d, separators=(",", ":"))\<close>\<close>
  "json_dumps d = ''{'' @ join '','' (map json_member d) @ ''}''"

section \<open>PyJWT: keys, algorithms and \<^verbatim>\<open>jwt.encode\<close>\<close>

fun tails :: "'a list \<Rightarrow> 'a list list" where
  "tails [] = [[]]"
| "tails (x # xs) = (x # xs) # tails xs"

definition startswith :: "string \<Rightarrow> string \<Rightarrow> bool" where
  "startswith s p = (take (length p) s = p)"

definition contains :: "string \<Rightarrow> string \<Rightarrow> bool" where
  \<comment> \<open>\<^verbatim>\<open>p in s\<close> on bytes\<close>
  "contains s p = list_ex (\<lambda>t. startswith t p) (tails s)"

definition PEMS :: "string list" where
  "PEMS =
     [''CERTIFICATE'', ''TRUSTED CERTIFICATE'', ''PRIVATE KEY'', ''PUBLIC KEY'',
      ''ENCRYPTED PRIVATE KEY'', ''OPENSSH PRIVATE KEY'', ''DSA PRIVATE KEY'',
      ''RSA PRIVATE KEY'', ''RSA PUBLIC KEY'', ''EC PRIVATE KEY'', ''DH PARAMETERS'',
      ''NEW CERTIFICATE REQUEST'', ''CERTIFICATE REQUEST'', ''SSH2 PUBLIC KEY'',
      ''SSH2 ENCRYPTED PRIVATE KEY'', ''X509 CRL'']"

definition pem_marker :: "string \<Rightarrow> string \<Rightarrow> string list" where
  \<comment> \<open>the texts \<^verbatim>\<open>----[- ]WORD LABEL[- ]----\<close> can match\<close>
  "pem_marker word label =
     [''----'' @ [a] @ word @ '' '' @ label @ [b] @ ''----''. a \<leftarrow> ''- '', b \<leftarrow> ''- '']"

definition pem_at :: "string \<Rightarrow> string \<Rightarrow> bool" where
  \<comment> \<open>\<^verbatim>\<open>_PEM_RE\<close> matches at the start of \<open>s\<close> with this label: the BEGIN marker, a
      line end, at least one character, a line feed and the END marker\<close>
  "pem_at label s =
     list_ex (\<lambda>head. list_ex (\<lambda>nl.
        startswith s (head @ nl) \<and>
        list_ex (\<lambda>rest. list_ex (\<lambda>tail. startswith rest ([byte 10] @ tail))
                   (pem_marker ''END'' label))
          (tails (drop (length (head @ nl) + 1) s)))
       [[byte 10], [byte 13, byte 10]])
     (pem_marker ''BEGIN'' label)"

definition is_pem_format :: "string \<Rightarrow> bool" where
  \<comment> \<open>\<^verbatim>\<open>jwt.utils.is_pem_format\<close>: \<^verbatim>\<open>bool(_PEM_RE.search(key))\<close>\<close>
  "is_pem_format key = list_ex (\<lambda>s. list_ex (\<lambda>label. pem_at label s) PEMS) (tails key)"

definition SSH_KEY_FORMATS :: "string list" where
  "SSH_KEY_FORMATS =
     [''ssh-ed25519'', ''ssh-rsa'', ''ssh-dss'', ''ecdsa-sha2-nistp256'',
      ''ecdsa-sha2-nistp384'', ''ecdsa-sha2-nistp521'']"

definition is_space :: "char \<Rightarrow> bool" where
  \<comment> \<open>\<^verbatim>\<open>\s\<close> in a bytes pattern\<close>
  "is_space c = (ord c \<in> {9, 10, 11, 12, 13, 32})"

definition is_ssh_key :: "string \<Rightarrow> bool" where
  \<comment> \<open>\<^verbatim>\<open>jwt.utils.is_ssh_key\<close>: one of the key type names occurs in the key, or the key
      starts \<^verbatim>\<open>TYPE BLOB\<close> with a type that ends in \<^verbatim>\<open>-cert-v01@openssh.com\<close>\<close>
  "is_ssh_key key =
     (list_ex (contains key) SSH_KEY_FORMATS \<or>
      (let key_type = takeWhile (\<lambda>c. \<not> is_space c) key;
           r1 = dropWhile (\<lambda>c. \<not> is_space c) key;
           r2 = dropWhile (\<lambda>c. c = CHR '' '' \<or> ord c = 9) r1
       in key_type \<noteq> [] \<and> r1 \<noteq> r2 \<and> (case r2 of [] \<Rightarrow> False | c # _ \<Rightarrow> \<not> is_space c) \<and>
          length ''-cert-v01@openssh.com'' \<le> length key_type \<and>
          drop (length key_type - length ''-cert-v01@openssh.com'') key_type
            = ''-cert-v01@openssh.com''))"

datatype alg_obj = NoneAlgorithm | HMACAlgorithm "string \<Rightarrow> string" nat

definition get_algorithm_by_name :: "string \<Rightarrow> error + alg_obj" where
  \<comment> \<open>the default registry of an installation without the optional \<^verbatim>\<open>cryptography\<close>
      package: the asymmetric algorithms are absent from it\<close>
  "get_algorithm_by_name alg_name =
     (if alg_name = ''none'' then Inr NoneAlgorithm
      else if alg_name = ''HS256'' then Inr (HMACAlgorithm sha256 64)
      else if alg_name = ''HS384'' then Inr (HMACAlgorithm sha384 128)
      else if alg_name = ''HS512'' then Inr (HMACAlgorithm sha512 128)
      else Inl NotImplementedError)"

fun prepare_key :: "alg_obj \<Rightarrow> string \<Rightarrow> error + string option" where
  "prepare_key NoneAlgorithm key = (if key = [] then Inr None else Inl InvalidKeyError)"
| "prepare_key (HMACAlgorithm h bs) key =
     (let key_bytes = force_bytes key
      in if is_pem_format key_bytes \<or> is_ssh_key key_bytes then Inl InvalidKeyError
         else Inr (Some key_bytes))"

fun sign :: "alg_obj \<Rightarrow> string \<Rightarrow> string option \<Rightarrow> string" where
  "sign (HMACAlgorithm h bs) msg (Some key) = hmac h bs key msg"
| "sign _ msg _ = []"

definition jws_header :: "string \<Rightarrow> string" where
  \<comment> \<open>\<^verbatim>\<open>{"typ": "JWT", "alg": algorithm}\<close> dumped with \<^verbatim>\<open>sort_keys=True\<close>\<close>
  "jws_header alg = json_dumps [(''alg'', PyStr alg), (''typ'', PyStr ''JWT'')]"

definition jws_encode :: "string \<Rightarrow> string \<Rightarrow> string \<Rightarrow> error + string" where
  \<comment> \<open>\<^verbatim>\<open>PyJWS.encode\<close> without extra headers\<close>
  "jws_encode json_payload key alg =
     (let signing_input = base64url_encode (jws_header alg) @ ''.'' @ base64url_encode json_payload
      in and_then (get_algorithm_by_name alg) (\<lambda>alg_obj.
         and_then (prepare_key alg_obj key) (\<lambda>k.
           Inr (signing_input @ ''.'' @ base64url_encode (sign alg_obj signing_input k)))))"

definition jwt_encode :: "pydict \<Rightarrow> string \<Rightarrow> string \<Rightarrow> error + string" where
  \<comment> \<open>\<^verbatim>\<open>jwt.encode(payload, key, algorithm=...)\<close>: an \<^verbatim>\<open>iss\<close> claim must be a string\<close>
  "jwt_encode claims key alg =
     (case map_of claims ''iss'' of
        Some (PyInt _) \<Rightarrow> Inl TypeError
      | _ \<Rightarrow> jws_encode (json_dumps claims) key alg)"

section \<open>\<^verbatim>\<open>str(datetime)\<close>\<close>

definition DAYS_BEFORE_MONTH :: "nat list" where
  "DAYS_BEFORE_MONTH = [0, 0, 31, 59, 90, 120, 151, 181, 212, 243, 273, 304, 334]"

definition DAYS_IN_MONTH :: "nat list" where
  "DAYS_IN_MONTH = [0, 31, 28, 31, 30, 31, 30, 31, 31, 30, 31, 30, 31]"

definition ord2ymd :: "nat \<Rightarrow> nat \<times> nat \<times> nat" where
  \<comment> \<open>\<^verbatim>\<open>datetime._ord2ymd\<close>: year, month and day of a proleptic Gregorian ordinal,
      where day 1 is 0001-01-01\<close>
  "ord2ymd ordinal =
     (let n = ordinal - 1;
          n400 = n div 146097; n = n mod 146097;
          n100 = n div 36524; n = n mod 36524;
          n4 = n div 1461; n = n mod 1461;
          n1 = n div 365; n = n mod 365;
          year = n400 * 400 + 1 + n100 * 100 + n4 * 4 + n1
      in if n1 = 4 \<or> n100 = 4 then (year - 1, 12, 31)
         else let leapyear = (n1 = 3 \<and> (n4 \<noteq> 24 \<or> n100 = 3));
                  month = (n + 50) div 32;
                  preceding = DAYS_BEFORE_MONTH ! month + (if 2 < month \<and> leapyear then 1 else 0)
              in if n < preceding
                 then (year, month - 1,
                       n + (DAYS_IN_MONTH ! (month - 1) + (if month - 1 = 2 \<and> leapyear then 1 else 0))
                         - preceding + 1)
                 else (year, month, n - preceding + 1))"

definition zpad :: "nat \<Rightarrow> nat \<Rightarrow> string" where
  \<comment> \<open>\<^verbatim>\<open>"%0wd" % n\<close>\<close>
  "zpad w n = replicate (w - length (show_nat n)) CHR ''0'' @ show_nat n"

definition str_datetime :: "datetime \<Rightarrow> string" where
  \<comment> \<open>\<^verbatim>\<open>datetime.__str__\<close>, that is \<^verbatim>\<open>isoformat(sep=' ')\<close>: the fraction is left out when
      the microsecond field is 0\<close>
  "str_datetime d =
     (let us_total = nat (d - datetime_min);
          rest = us_total mod 86400000000;
          us = rest mod 1000000
      in case ord2ymd (us_total div 86400000000 + 1) of (y, m, dd) \<Rightarrow>
           zpad 4 y @ ''-'' @ zpad 2 m @ ''-'' @ zpad 2 dd @ '' ''
           @ zpad 2 (rest div 3600000000) @ '':'' @ zpad 2 (rest div 60000000 mod 60) @ '':''
           @ zpad 2 (rest div 1000000 mod 60)
           @ (if us = 0 then [] else ''.'' @ zpad 6 us))"

section \<open>The script: signing and the printed report\<close>

text \<open>
  Standard output is the list of the texts printed, one per \<^verbatim>\<open>print\<close> call, as UTF-8
  bytes. The four symbols of the source are U+1F510, U+1F4C5, U+2022 and U+1F6A8.
\<close>

definition banner :: string where
  \<comment> \<open>\<^verbatim>\<open>"="*60\<close>\<close>
  "banner = replicate 60 CHR ''=''"

definition lock_symbol :: string where
  "lock_symbol = [CHR 0xF0, CHR 0x9F, CHR 0x94, CHR 0x90]"

definition calendar_symbol :: string where
  "calendar_symbol = [CHR 0xF0, CHR 0x9F, CHR 0x93, CHR 0x85]"

definition bullet :: string where
  "bullet = [CHR 0xE2, CHR 0x80, CHR 0xA2]"

definition siren_symbol :: string where
  "siren_symbol = [CHR 0xF0, CHR 0x9F, CHR 0x9A, CHR 0xA8]"

definition report :: "string \<Rightarrow> datetime \<Rightarrow> datetime \<Rightarrow> (error + string) list" where
  \<comment> \<open>lines 32-48: the argument of each \<^verbatim>\<open>print\<close>, or the exception its evaluation raises\<close>
  "report token exp_time iat_time =
     [Inr banner,
      Inr (lock_symbol @ '' FRESH JWT TOKEN GENERATED''),
      Inr banner,
      Inr (''Token: '' @ token),
      Inr [],
      Inr (calendar_symbol @ '' Token Details:''),
      Inr (bullet @ '' Issued At: '' @ str_datetime iat_time),
      Inr (bullet @ '' Expires At: '' @ str_datetime exp_time),
      Inr (bullet @ '' Valid For: 365 days''),
      and_then (getitem user_data ''email'') (\<lambda>email. Inr (bullet @ '' User: '' @ email)),
      and_then (getitem user_data ''role'') (\<lambda>role. Inr (bullet @ '' Role: '' @ role)),
      Inr [],
      Inr (siren_symbol @ '' IMPORTANT:''),
      Inr ''1. Use this as your ADMIN_JWT_TOKEN in Railway environment variables'',
      Inr ''2. Make sure JWT_SECRET matches the secret_key used here'',
      Inr ''3. Remove the old expired ADMIN_JWT_TOKEN from Railway'',
      Inr banner]"

record run =
  stdout :: "string list"
  exit_status :: nat
  uncaught :: "error option"

definition crash :: "string list \<Rightarrow> error \<Rightarrow> run" where
  \<comment> \<open>an uncaught exception: the traceback goes to standard error, the exit status is 1\<close>
  "crash out e = \<lparr>stdout = out, exit_status = 1, uncaught = Some e\<rparr>"

fun print_all :: "(error + string) list \<Rightarrow> string list \<Rightarrow> run" where
  "print_all [] out = \<lparr>stdout = out, exit_status = 0, uncaught = None\<rparr>"
| "print_all (Inl e # _) out = crash out e"
| "print_all (Inr text # rest) out = print_all rest (out @ [text])"

definition mint :: "string \<Rightarrow> string \<Rightarrow> (int \<Rightarrow> int) \<Rightarrow> datetime \<Rightarrow> datetime \<Rightarrow> run" where
  \<comment> \<open>the module body, with the constants of lines 5 and 6 as parameters\<close>
  "mint secret alg local now1 now2 =
     (case expiration_time now1 of Inl e \<Rightarrow> crash [] e | Inr exp_time \<Rightarrow>
      case payload local exp_time (issued_at now2) of Inl e \<Rightarrow> crash [] e | Inr claims \<Rightarrow>
      case jwt_encode claims secret alg of Inl e \<Rightarrow> crash [] e | Inr token \<Rightarrow>
        print_all (report token exp_time (issued_at now2)) [])"


section \<open>Facts about the time arithmetic\<close>

lemma and_then_simps [simp]:
  "and_then (Inl e) f = Inl e"
  "and_then (Inr x) f = f x"
  by (simp_all add: and_then_def)

text \<open>
  Rounding to a double moves a value by at most half a unit in the last place and never
  across a representable value. Up to 2 ^ 33 seconds (the year 2242) the integer part
  of the timestamp is therefore the whole second of the calendar reading.
\<close>

lemma round_half_even_near:
  "y - 1 / 2 \<le> of_int (round_half_even y)" "of_int (round_half_even y) \<le> y + 1 / 2"
  unfolding round_half_even_def Let_def by (auto; linarith)+

lemma round_half_even_ge: "of_int n \<le> y \<Longrightarrow> n \<le> round_half_even y"
proof -
  assume "of_int n \<le> y"
  then have "n \<le> \<lfloor>y\<rfloor>" by (simp add: le_floor_iff)
  then show ?thesis unfolding round_half_even_def Let_def by auto
qed

lemma fl_pos:
  assumes "0 < x" and "x < 2 powr of_int k"
  obtains m :: int where "m \<le> k - 53"
    and "fl x = of_int (round_half_even (x / 2 powr of_int m)) * 2 powr of_int m"
proof
  have "log 2 x < of_int k"
    using assms by (simp add: log_less_iff)
  then have "\<lfloor>log 2 x\<rfloor> < k"
    by (simp add: floor_less_iff)
  then show "\<lfloor>log 2 \<bar>x\<bar>\<rfloor> - 52 \<le> k - 53"
    using assms(1) by simp
  show "fl x = of_int (round_half_even (x / 2 powr of_int (\<lfloor>log 2 \<bar>x\<bar>\<rfloor> - 52)))
               * 2 powr of_int (\<lfloor>log 2 \<bar>x\<bar>\<rfloor> - 52)"
    using assms(1) by (simp add: fl_def Let_def)
qed


lemma fl_error:
  assumes "0 < x" and "x < 2 powr of_int k"
  shows "\<bar>fl x - x\<bar> \<le> 2 powr of_int (k - 54)"
proof -
  from assms(1,2) obtain m :: int where m: "m \<le> k - 53"
    and f: "fl x = of_int (round_half_even (x / 2 powr of_int m)) * 2 powr of_int m"
    by (rule fl_pos)
  define q :: real where "q = 2 powr of_int m"
  have q: "0 < q" by (simp add: q_def)
  have "\<bar>of_int (round_half_even (x / q)) - x / q\<bar> \<le> 1 / 2"
    using round_half_even_near [of "x / q"] by linarith
  then have "\<bar>of_int (round_half_even (x / q)) - x / q\<bar> * q \<le> 1 / 2 * q"
    using q by (intro mult_right_mono) simp_all
  moreover have "\<bar>of_int (round_half_even (x / q)) - x / q\<bar> * q = \<bar>fl x - x\<bar>"
  proof -
    have "(of_int (round_half_even (x / q)) - x / q) * q = fl x - x"
      using q by (simp add: f q_def left_diff_distrib)
    then have "\<bar>fl x - x\<bar> = \<bar>of_int (round_half_even (x / q)) - x / q\<bar> * \<bar>q\<bar>"
      by (simp only: abs_mult [symmetric])
    then show ?thesis using q by simp
  qed
  moreover have "1 / 2 * q = 2 powr of_int (m - 1)"
    by (simp add: q_def powr_diff)
  moreover have "2 powr of_int (m - 1) \<le> (2::real) powr of_int (k - 54)"
    using m by (intro powr_mono) simp_all
  ultimately show ?thesis by linarith
qed

lemma fl_ge_int:
  assumes "0 < x" and "x < 2 powr of_int k" and "k \<le> 53" and "of_int s \<le> x"
  shows "of_int s \<le> fl x"
proof -
  from assms(1,2) obtain m :: int where m: "m \<le> k - 53"
    and f: "fl x = of_int (round_half_even (x / 2 powr of_int m)) * 2 powr of_int m"
    by (rule fl_pos)
  define q :: real where "q = 2 powr of_int m"
  have q: "0 < q" by (simp add: q_def)
  have inv: "1 / q = 2 ^ nat (- m)"
  proof -
    have "1 / q = 2 powr of_int (- m)"
      by (simp add: q_def powr_minus_divide)
    also have "of_int (- m) = real (nat (- m))"
      using m assms(3) by simp
    also have "2 powr real (nat (- m)) = (2::real) ^ nat (- m)"
      by (simp add: powr_realpow)
    finally show ?thesis .
  qed
  have "of_int (s * 2 ^ nat (- m)) = of_int s * (1 / q)"
    by (simp add: inv)
  also have "\<dots> \<le> x * (1 / q)"
    using assms(4) q by (intro mult_right_mono) simp_all
  finally have "of_int (s * 2 ^ nat (- m)) \<le> x / q" by simp
  then have "s * 2 ^ nat (- m) \<le> round_half_even (x / q)"
    by (rule round_half_even_ge)
  then have "(of_int (s * 2 ^ nat (- m)) :: real) \<le> of_int (round_half_even (x / q))"
    by (simp only: of_int_le_iff)
  then have "of_int (s * 2 ^ nat (- m)) * q \<le> of_int (round_half_even (x / q)) * q"
    using q by (intro mult_right_mono) simp_all
  moreover have "of_int (s * 2 ^ nat (- m)) * q = of_int s"
    using q inv by (simp add: field_simps)
  ultimately have "of_int s \<le> of_int (round_half_even (x / q)) * q"
    by linarith
  then show ?thesis
    unfolding f q_def .
qed

lemma py_int_double:
  assumes "0 \<le> s" and "s < 2 ^ 33" and "0 \<le> us" and "us < 1000000"
  shows "py_int (fl (of_int s + fl (of_int us / 1000000))) = s"
proof -
  define x1 where "x1 = fl (of_int us / 1000000)"
  have x1: "0 \<le> x1 \<and> x1 \<le> 1 - 1 / 1000000 + 2 powr (- 54)"
  proof (cases "us = 0")
    case True
    then show ?thesis by (simp add: x1_def fl_def)
  next
    case False
    then have p: "0 < (of_int us :: real) / 1000000" using assms(3) by simp
    have u: "(of_int us :: real) / 1000000 \<le> 1 - 1 / 1000000"
      using assms(4) by simp
    then have lt: "(of_int us :: real) / 1000000 < 2 powr of_int 0" by simp
    have "of_int 0 \<le> (of_int us :: real) / 1000000" using p by simp
    from fl_ge_int [OF p lt _ this] have "0 \<le> x1" by (simp add: x1_def)
    moreover from fl_error [OF p lt] have "x1 \<le> of_int us / 1000000 + 2 powr (- 54)"
      by (simp add: x1_def)
    ultimately show ?thesis using u by linarith
  qed
  define y where "y = of_int s + x1"
  have e: "(2::real) powr (- 54) < 1 / 2000000" "(2::real) powr (- 21) < 1 / 2000000"
    by (simp_all add: powr_minus_divide)
  have "py_int (fl y) = s"
  proof (cases "y = 0")
    case True
    then have "s = 0" using x1 assms(1) unfolding y_def by linarith
    with True show ?thesis by (simp add: fl_def py_int_def)
  next
    case False
    then have p: "0 < y" using x1 assms(1) by (simp add: y_def add_nonneg_nonneg less_le)
    have "y < of_int s + 1" using x1 e unfolding y_def by linarith
    moreover have "s + 1 \<le> 2 ^ 33" using assms(2) by simp
    then have "of_int (s + 1) \<le> (of_int (2 ^ 33) :: real)" by (simp only: of_int_le_iff)
    then have "of_int s + 1 \<le> (2::real) ^ 33" by simp
    ultimately have lt: "y < 2 powr of_int 33" by simp
    have ge: "of_int s \<le> y" using x1 by (simp add: y_def)
    from fl_ge_int [OF p lt _ ge] have lo: "of_int s \<le> fl y" by simp
    from fl_error [OF p lt] have "fl y \<le> y + 2 powr (- 21)" by simp
    then have hi: "fl y < of_int s + 1" using x1 e unfolding y_def by linarith
    have "(0::real) \<le> of_int s" using assms(1) by simp
    then have "0 \<le> fl y" using lo by linarith
    moreover have "\<lfloor>fl y\<rfloor> = s" using lo hi by (simp add: floor_unique)
    ultimately show ?thesis by (simp add: py_int_def)
  qed
  then show ?thesis by (simp add: y_def x1_def)
qed

lemma int_timestamp_eq:
  assumes "mktime local d = Inr s" and "0 \<le> s" and "s < 2 ^ 33"
  shows "int_timestamp local d = Inr s"
proof -
  have "0 \<le> d mod 1000000" "d mod 1000000 < 1000000"
    by simp_all
  from py_int_double [OF assms(2,3) this] show ?thesis
    by (simp add: int_timestamp_def timestamp_def assms(1))
qed

lemma mktime_fixed_offset:
  assumes "- 62135596800 \<le> d div 1000000 - 86400" and "d div 1000000 \<le> 253402300799"
      and "- 62135596800 \<le> d div 1000000 + off" and "d div 1000000 + off \<le> 253402300799"
  shows "mktime (fixed_offset off) d = Inr (d div 1000000 - off)"
  using assms by (simp add: mktime_def local_seconds_def fixed_offset_def Let_def)

lemma mktime_utc:
  assumes "- 62135596800 \<le> d div 1000000 - 86400" and "d div 1000000 \<le> 253402300799"
  shows "mktime utc d = Inr (d div 1000000)"
  using assms by (simp add: mktime_def local_seconds_def utc_def Let_def)

lemma local_seconds_total:
  assumes "\<bar>local u - u\<bar> \<le> 86400" and "- 62135596800 + 86400 \<le> u" and "u \<le> 253402300799 - 86400"
  shows "local_seconds local u = Inr (local u)"
  using assms unfolding local_seconds_def by auto

lemma mktime_total:
  assumes zone: "\<forall>u. \<bar>local u - u\<bar> \<le> 86400"
      and lo: "datetime_min + timedelta 3 \<le> d" and hi: "d + timedelta 3 \<le> datetime_max"
  shows "\<exists>s. mktime local d = Inr s"
proof -
  define t where "t = d div 1000000"
  have "(- 62135596800 + 259200) * 1000000 \<le> d"
    using lo by (simp add: datetime_min_def timedelta_def)
  then have "(- 62135596800 + 259200) * 1000000 div 1000000 \<le> d div 1000000"
    by (rule zdiv_mono1) simp
  then have tl: "- 62135596800 + 259200 \<le> t"
    by (simp add: t_def)
  have "d \<le> (253402300799 - 259200) * 1000000 + 999999"
    using hi by (simp add: datetime_max_def timedelta_def)
  then have "d div 1000000 \<le> ((253402300799 - 259200) * 1000000 + 999999) div 1000000"
    by (rule zdiv_mono1) simp
  then have th: "t \<le> 253402300799 - 259200"
    by (simp add: t_def)
  define u1 where "u1 = t - (local t - t)"
  define b1 where "b1 = local (u1 - 86400) - (u1 - 86400)"
  define b2 where "b2 = local u1 - u1"
  have z: "\<bar>local t - t\<bar> \<le> 86400" "\<bar>local u1 - u1\<bar> \<le> 86400"
    "\<bar>local (u1 - 86400) - (u1 - 86400)\<bar> \<le> 86400"
    "\<bar>local (t - b1) - (t - b1)\<bar> \<le> 86400" "\<bar>local (t - b2) - (t - b2)\<bar> \<le> 86400"
    using zone by blast+
  have p1: "local_seconds local t = Inr (local t)"
    using z(1) tl th by (intro local_seconds_total) simp_all
  have p2: "local_seconds local u1 = Inr (local u1)"
    using z(1,2) tl th by (intro local_seconds_total) (simp_all add: u1_def)
  have p3: "local_seconds local (u1 - 86400) = Inr (local (u1 - 86400))"
    using z(1,3) tl th by (intro local_seconds_total) (simp_all add: u1_def)
  have p4: "local_seconds local (t - b1) = Inr (local (t - b1))"
    using z(3,4) tl th by (intro local_seconds_total) (simp_all add: b1_def)
  have p5: "local_seconds local (t - b2) = Inr (local (t - b2))"
    using z(2,5) tl th by (intro local_seconds_total) (simp_all add: b2_def)
  have "mktime local d =
     and_then (if local u1 = t then Inr b1 else Inr b2) (\<lambda>b.
       if local u1 = t \<and> local t - t = b then Inr u1
       else and_then (local_seconds local (t - b)) (\<lambda>t2.
              if t2 = t then Inr (t - b) else if local u1 = t then Inr u1
              else Inr (max u1 (t - b))))"
    unfolding mktime_def Let_def t_def [symmetric] p1 and_then_simps u1_def [symmetric] p2 p3
      b1_def [symmetric] b2_def [symmetric] ..
  then show ?thesis
    by (cases "local u1 = t") (simp_all only: if_True if_False and_then_simps p4 p5 split: if_split, auto)
qed

lemma int_timestamp_total:
  assumes "\<forall>u. \<bar>local u - u\<bar> \<le> 86400"
      and "datetime_min + timedelta 3 \<le> d" and "d + timedelta 3 \<le> datetime_max"
  shows "\<exists>i. int_timestamp local d = Inr i"
proof -
  from mktime_total [OF assms] obtain s where "mktime local d = Inr s" ..
  then show ?thesis by (simp add: int_timestamp_def timestamp_def)
qed

lemma getitem_user_data:
  "getitem user_data ''user_id'' = Inr ''admin''"
  "getitem user_data ''email'' = Inr ''admin@xeno.com''"
  "getitem user_data ''username'' = Inr ''admin@xeno.com''"
  "getitem user_data ''role'' = Inr ''admin''"
  by (simp_all add: getitem_def user_data_def)

lemma payload_eq:
  "payload local exp_time iat_time =
     and_then (int_timestamp local exp_time) (\<lambda>exp.
     and_then (int_timestamp local iat_time) (\<lambda>iat.
     Inr [(''sub'', PyStr ''admin''),
          (''email'', PyStr ''admin@xeno.com''),
          (''username'', PyStr ''admin@xeno.com''),
          (''role'', PyStr ''admin''),
          (''exp'', PyInt exp),
          (''iat'', PyInt iat)]))"
  by (simp add: payload_def getitem_user_data)

lemma expiration_time_Inr:
  "expiration_time now1 = Inr e \<Longrightarrow> e = now1 + 31536000000000"
  by (auto simp: expiration_time_def dt_add_def timedelta_def Let_def split: if_splits)

lemma expiration_time_in_range:
  "datetime_min \<le> now1 + 31536000000000 \<Longrightarrow> now1 + 31536000000000 \<le> datetime_max \<Longrightarrow>
   expiration_time now1 = Inr (now1 + 31536000000000)"
  by (simp add: expiration_time_def dt_add_def timedelta_def Let_def)

lemma expiration_time_2024:
  "expiration_time 1704067200999999 = Inr 1735603200999999"
  "expiration_time 1704067200000000 = Inr 1735603200000000"
  by (simp_all add: expiration_time_def dt_add_def timedelta_def datetime_min_def datetime_max_def)

lemma int_timestamp_2024:
  "int_timestamp utc 1735603200999999 = Inr 1735603200"
  "int_timestamp utc 1704067201000001 = Inr 1704067201"
  "int_timestamp utc 1735603200000000 = Inr 1735603200"
  "int_timestamp utc 1704067200000000 = Inr 1704067200"
  "int_timestamp (fixed_offset 3600) 1735603200000000 = Inr 1735599600"
  "int_timestamp (fixed_offset 3600) 1704067200000000 = Inr 1704063600"
  by (rule int_timestamp_eq, (subst mktime_utc | subst mktime_fixed_offset), simp_all)+

lemma build_payload_total:
  assumes "\<forall>u. \<bar>local u - u\<bar> \<le> 86400"
      and "datetime_min + timedelta 3 \<le> now1" and "now1 + timedelta 368 \<le> datetime_max"
      and "datetime_min + timedelta 3 \<le> now2" and "now2 + timedelta 3 \<le> datetime_max"
  shows "\<exists>exp iat.
           int_timestamp local (now1 + timedelta 365) = Inr exp \<and>
           int_timestamp local now2 = Inr iat \<and>
           build_payload local now1 now2 =
             Inr [(''sub'', PyStr ''admin''),
                  (''email'', PyStr ''admin@xeno.com''),
                  (''username'', PyStr ''admin@xeno.com''),
                  (''role'', PyStr ''admin''),
                  (''exp'', PyInt exp),
                  (''iat'', PyInt iat)]"
proof -
  have e: "expiration_time now1 = Inr (now1 + timedelta 365)"
    using assms(2,3)
    by (simp add: expiration_time_def dt_add_def Let_def timedelta_def datetime_min_def
        datetime_max_def)
  have "datetime_min + timedelta 3 \<le> now1 + timedelta 365"
    using assms(2) by (simp add: timedelta_def)
  moreover have "now1 + timedelta 365 + timedelta 3 \<le> datetime_max"
    using assms(3) by (simp add: timedelta_def)
  ultimately obtain exp where x: "int_timestamp local (now1 + timedelta 365) = Inr exp"
    using int_timestamp_total [OF assms(1)] by blast
  obtain iat where i: "int_timestamp local now2 = Inr iat"
    using int_timestamp_total [OF assms(1,4,5)] by blast
  show ?thesis
    by (simp add: build_payload_def e payload_eq issued_at_def x i)
qed

section \<open>Claims about the claims mapping\<close>

text \<open>
  C1 (fails on the code). The claim: in every run the expiration timestamp minus the
  issued-at timestamp is exactly 365 * 86400, whenever the clock is read. The script
  reads the clock twice, first for the expiration and then for the issued-at value.
  With the zone UTC, a first reading at 2024-01-01 00:00:00.999999 and a second one two
  microseconds later at 00:00:01.000001, the two timestamps are 1735603200 and
  1704067201: one second short of 365 days.
\<close>

theorem window_two_readings_one_second_short:
  "build_payload utc 1704067200999999 1704067201000001 =
     Inr [(''sub'', PyStr ''admin''),
          (''email'', PyStr ''admin@xeno.com''),
          (''username'', PyStr ''admin@xeno.com''),
          (''role'', PyStr ''admin''),
          (''exp'', PyInt 1735603200),
          (''iat'', PyInt 1704067201)]
   \<and> (1735603200 :: int) - 1704067201 = 365 * 86400 - 1"
  by (simp add: build_payload_def expiration_time_2024 issued_at_def payload_eq
      int_timestamp_2024)

text \<open>
  C2 (fails on the code). The claim: with the clock fixed at T, the issued-at timestamp
  is T and the expiration timestamp is T + 365 days, a function of the clock alone.
  \<^verbatim>\<open>datetime.utcnow()\<close> is naive and \<^verbatim>\<open>timestamp()\<close> reads a naive value as local
  time, so the result also depends on the zone of the process. In a zone one hour east
  of UTC, with both readings at T = 1704067200 (2024-01-01 00:00:00 UTC), the
  issued-at timestamp is 1704063600 and the expiration timestamp 1735599600.
\<close>

theorem fixed_clock_east_of_utc_shifts_timestamps:
  "build_payload (fixed_offset 3600) 1704067200000000 1704067200000000 =
     Inr [(''sub'', PyStr ''admin''),
          (''email'', PyStr ''admin@xeno.com''),
          (''username'', PyStr ''admin@xeno.com''),
          (''role'', PyStr ''admin''),
          (''exp'', PyInt 1735599600),
          (''iat'', PyInt 1704063600)]"
  by (simp add: build_payload_def expiration_time_2024 issued_at_def payload_eq
      int_timestamp_2024)

text \<open>
  C4. Every run builds the claims mapping, and it has exactly the six keys sub, email,
  username, role, exp and iat, in this order: the four identity fields are the fixed
  strings, exp is the integer timestamp of the first clock reading plus 365 days and
  iat the integer timestamp of the second reading. "Every run" is every zone whose
  local time is within a day of UTC and every pair of clock readings from three days
  after \<^verbatim>\<open>datetime.min\<close> to 368 days (the first) and three days (the second) before
  \<^verbatim>\<open>datetime.max\<close>; at the very ends of the range of \<^verbatim>\<open>datetime\<close> lines 17, 25 and
  26 raise instead.
\<close>

theorem payload_fields:
  assumes "\<forall>u. \<bar>local u - u\<bar> \<le> 86400"
      and "datetime_min + timedelta 3 \<le> now1" and "now1 + timedelta 368 \<le> datetime_max"
      and "datetime_min + timedelta 3 \<le> now2" and "now2 + timedelta 3 \<le> datetime_max"
  shows "\<exists>exp iat.
           int_timestamp local (now1 + timedelta 365) = Inr exp \<and>
           int_timestamp local now2 = Inr iat \<and>
           build_payload local now1 now2 =
             Inr [(''sub'', PyStr ''admin''),
                  (''email'', PyStr ''admin@xeno.com''),
                  (''username'', PyStr ''admin@xeno.com''),
                  (''role'', PyStr ''admin''),
                  (''exp'', PyInt exp),
                  (''iat'', PyInt iat)]"
  using assms by (rule build_payload_total)

theorem payload_fields_witness:
  "(\<forall>u. \<bar>utc u - u\<bar> \<le> 86400)
   \<and> datetime_min + timedelta 3 \<le> 1704067200000000
   \<and> 1704067200000000 + timedelta 368 \<le> datetime_max
   \<and> build_payload utc 1704067200000000 1704067200000000 =
       Inr [(''sub'', PyStr ''admin''),
            (''email'', PyStr ''admin@xeno.com''),
            (''username'', PyStr ''admin@xeno.com''),
            (''role'', PyStr ''admin''),
            (''exp'', PyInt 1735603200),
            (''iat'', PyInt 1704067200)]"
proof -
  have z: "\<forall>u. \<bar>utc u - u\<bar> \<le> 86400"
    by (simp add: utc_def)
  have r: "datetime_min + timedelta 3 \<le> 1704067200000000"
    "1704067200000000 + timedelta 368 \<le> datetime_max"
    "1704067200000000 + timedelta 3 \<le> datetime_max"
    by (simp_all add: datetime_min_def datetime_max_def timedelta_def)
  from payload_fields [OF z r(1,2) r(1,3)] z r show ?thesis
    by (auto simp: timedelta_def int_timestamp_2024)
qed

section \<open>Facts about keys and signing\<close>

lemma ord_byte: "ord (byte n) = n mod 256"
  by (simp add: ord_def byte_def)

lemma tails_subset: "t \<in> set (tails s) \<Longrightarrow> set t \<subseteq> set s"
  by (induction s) auto

lemma startswith_Cons: "startswith t (c # p) \<Longrightarrow> c \<in> set t"
  by (cases t) (auto simp: startswith_def)

lemma startswith_subset: "startswith t p \<Longrightarrow> set p \<subseteq> set t"
  unfolding startswith_def by (metis set_take_subset)

lemma contains_subset: "contains s p \<Longrightarrow> set p \<subseteq> set s"
  unfolding contains_def list_ex_iff
  using startswith_subset tails_subset by blast

lemma pem_marker_hyphen: "head \<in> set (pem_marker w label) \<Longrightarrow> \<exists>r. head = CHR ''-'' # r"
  by (auto simp: pem_marker_def)

lemma no_hyphen_not_pem:
  assumes "CHR ''-'' \<notin> set key"
  shows "\<not> is_pem_format key"
proof
  assume "is_pem_format key"
  then obtain t label where t: "t \<in> set (tails key)" and p: "pem_at label t"
    by (auto simp: is_pem_format_def list_ex_iff)
  from p obtain head nl where h: "head \<in> set (pem_marker ''BEGIN'' label)"
      and s: "startswith t (head @ nl)"
    by (auto simp: pem_at_def list_ex_iff)
  from h obtain r where "head = CHR ''-'' # r"
    using pem_marker_hyphen by blast
  with s have "CHR ''-'' \<in> set t"
    using startswith_Cons [of t "CHR ''-''" "r @ nl"] by simp
  with t tails_subset assms show False by blast
qed

lemma no_hyphen_not_ssh:
  assumes "CHR ''-'' \<notin> set key"
  shows "\<not> is_ssh_key key"
proof
  assume a: "is_ssh_key key"
  have fmt: "\<not> list_ex (contains key) SSH_KEY_FORMATS"
  proof
    assume "list_ex (contains key) SSH_KEY_FORMATS"
    then obtain f where f: "f \<in> set SSH_KEY_FORMATS" and c: "contains key f"
      by (auto simp: list_ex_iff)
    from f have "CHR ''-'' \<in> set f"
      by (auto simp: SSH_KEY_FORMATS_def)
    with c contains_subset assms show False by blast
  qed
  define kt where "kt = takeWhile (\<lambda>c. \<not> is_space c) key"
  from a fmt have "drop (length kt - length ''-cert-v01@openssh.com'') kt = ''-cert-v01@openssh.com''"
    unfolding is_ssh_key_def kt_def Let_def by blast
  then have "CHR ''-'' \<in> set (drop (length kt - length ''-cert-v01@openssh.com'') kt)"
    by simp
  then have "CHR ''-'' \<in> set kt"
    using set_drop_subset by fastforce
  then have "CHR ''-'' \<in> set key"
    unfolding kt_def using set_takeWhileD by fastforce
  with assms show False by contradiction
qed

lemma force_bytes_ascii: "\<forall>c \<in> set s. ord c < 128 \<Longrightarrow> force_bytes s = s"
  by (induction s) (auto simp: force_bytes_def)

lemma prepare_key_hmac_no_hyphen:
  assumes "\<forall>c \<in> set key. ord c < 128" and "CHR ''-'' \<notin> set key"
  shows "prepare_key (HMACAlgorithm h bs) key = Inr (Some key)"
  using assms by (simp add: force_bytes_ascii no_hyphen_not_pem no_hyphen_not_ssh)

lemma secret_key_plain: "(\<forall>c \<in> set secret_key. ord c < 128) \<and> CHR ''-'' \<notin> set secret_key"
  by (simp add: secret_key_def ord_def)

lemma prepare_key_secret_key:
  "prepare_key (HMACAlgorithm h bs) secret_key = Inr (Some secret_key)"
  using secret_key_plain by (intro prepare_key_hmac_no_hyphen) simp_all

lemma prepare_key_empty: "prepare_key (HMACAlgorithm h bs) [] = Inr (Some [])"
  by (intro prepare_key_hmac_no_hyphen) simp_all

lemma jwt_encode_hs256:
  assumes "map_of claims ''iss'' = None"
      and "prepare_key (HMACAlgorithm sha256 64) key = Inr (Some kb)"
  shows "jwt_encode claims key ''HS256'' =
     Inr (base64url_encode (jws_header ''HS256'') @ ''.'' @ base64url_encode (json_dumps claims)
          @ ''.'' @ base64url_encode
              (hmac sha256 64 kb
                 (base64url_encode (jws_header ''HS256'') @ ''.''
                  @ base64url_encode (json_dumps claims))))"
  using assms by (simp add: jwt_encode_def jws_encode_def get_algorithm_by_name_def Let_def)

section \<open>Facts about the printed report\<close>

lemma print_all_report:
  "print_all (report token exp_time iat_time) [] =
     \<lparr>stdout =
        [banner,
         lock_symbol @ '' FRESH JWT TOKEN GENERATED'',
         banner,
         ''Token: '' @ token,
         [],
         calendar_symbol @ '' Token Details:'',
         bullet @ '' Issued At: '' @ str_datetime iat_time,
         bullet @ '' Expires At: '' @ str_datetime exp_time,
         bullet @ '' Valid For: 365 days'',
         bullet @ '' User: admin@xeno.com'',
         bullet @ '' Role: admin'',
         [],
         siren_symbol @ '' IMPORTANT:'',
         ''1. Use this as your ADMIN_JWT_TOKEN in Railway environment variables'',
         ''2. Make sure JWT_SECRET matches the secret_key used here'',
         ''3. Remove the old expired ADMIN_JWT_TOKEN from Railway'',
         banner],
      exit_status = 0, uncaught = None\<rparr>"
  by (simp add: report_def getitem_user_data)

lemma mint_cases:
  "mint secret alg local now1 now2 =
     (case build_payload local now1 now2 of
        Inl e \<Rightarrow> crash [] e
      | Inr claims \<Rightarrow>
          (case jwt_encode claims secret alg of
             Inl e \<Rightarrow> crash [] e
           | Inr token \<Rightarrow> print_all (report token (now1 + timedelta 365) (issued_at now2)) []))"
proof (cases "expiration_time now1")
  case (Inl e)
  then show ?thesis by (simp add: mint_def build_payload_def)
next
  case (Inr e)
  then have "e = now1 + timedelta 365"
    by (simp add: expiration_time_Inr timedelta_def)
  with Inr show ?thesis
    by (simp add: mint_def build_payload_def payload_eq)
qed

lemma build_payload_no_iss: "build_payload local now1 now2 = Inr claims \<Longrightarrow> map_of claims ''iss'' = None"
  by (cases "expiration_time now1")
     (auto simp: build_payload_def payload_eq and_then_def split: sum.splits)

lemma ord_b2a:
  "ord (b2a n) = (if n < 26 then 65 + n else if n < 52 then 71 + n
                  else if n < 62 then n - 4 else if n = 62 then 43 else 47)"
  by (simp add: b2a_def ord_byte) (simp add: ord_def)

lemma ord_eq_iff: "ord c = ord d \<longleftrightarrow> c = d"
  by (simp add: ord_def)

lemma b64encode_chars:
  "c \<in> set (b64encode s) \<Longrightarrow> ord c \<in> {43, 47, 61} \<union> {48..57} \<union> {65..90} \<union> {97..122}"
proof (induction s rule: b64encode.induct)
  case (1 a b c rest)
  have b: "ord (b2a n) \<in> {43, 47, 61} \<union> {48..57} \<union> {65..90} \<union> {97..122}" for n
    unfolding ord_b2a by auto
  from 1 show ?case using b by (auto simp del: insert_iff Un_iff)
next
  case (2 a b)
  have b: "ord (b2a n) \<in> {43, 47, 61} \<union> {48..57} \<union> {65..90} \<union> {97..122}" for n
    unfolding ord_b2a by auto
  have e: "ord CHR ''='' = 61" by (simp add: ord_def)
  from 2 show ?case using b e by (auto simp del: insert_iff Un_iff)
next
  case (3 a)
  have b: "ord (b2a n) \<in> {43, 47, 61} \<union> {48..57} \<union> {65..90} \<union> {97..122}" for n
    unfolding ord_b2a by auto
  have e: "ord CHR ''='' = 61" by (simp add: ord_def)
  from 3 show ?case using b e by (auto simp del: insert_iff Un_iff)
next
  case 4
  then show ?case by simp
qed

lemma base64url_chars:
  assumes "c \<in> set (base64url_encode s)"
  shows "ord c \<in> {45, 95} \<union> {48..57} \<union> {65..90} \<union> {97..122}"
proof -
  define tr where "tr = (\<lambda>d. if d = CHR ''+'' then CHR ''-'' else if d = CHR ''/'' then CHR ''_'' else d)"
  from assms have "c \<in> tr ` set (b64encode s)" and ne: "c \<noteq> CHR ''=''"
    by (simp_all add: base64url_encode_def urlsafe_b64encode_def tr_def)
  then obtain d where d: "d \<in> set (b64encode s)" and c: "c = tr d"
    by blast
  show ?thesis
  proof (cases "d = CHR ''+'' \<or> d = CHR ''/''")
    case True
    then show ?thesis using c by (auto simp: ord_def tr_def)
  next
    case False
    then have cd: "c = d" using c by (simp add: tr_def)
    have "ord d \<noteq> ord CHR ''+''" "ord d \<noteq> ord CHR ''/''" "ord d \<noteq> ord CHR ''=''"
      using False ne cd unfolding ord_eq_iff by simp_all
    then have "ord d \<noteq> 43" "ord d \<noteq> 47" "ord d \<noteq> 61"
      by (simp_all add: ord_def)
    then show ?thesis using b64encode_chars [OF d] cd by auto
  qed
qed

lemma show_nat_digits: "c \<in> set (show_nat n) \<Longrightarrow> 48 \<le> ord c \<and> ord c \<le> 57"
proof (induction n rule: show_nat.induct)
  case (1 n)
  show ?case
  proof (cases "n < 10")
    case True
    with 1(2) show ?thesis
      by (subst (asm) show_nat.simps) (simp add: ord_byte)
  next
    case False
    have m: "n mod 10 < 10" by simp
    from False 1(2) have "c \<in> set (show_nat (n div 10)) \<or> c = byte (48 + n mod 10)"
      by (subst (asm) show_nat.simps) auto
    then show ?thesis
      using 1(1) [OF False] m by (auto simp: ord_byte)
  qed
qed

lemma zpad_digits: "c \<in> set (zpad w n) \<Longrightarrow> 48 \<le> ord c \<and> ord c \<le> 57"
  using show_nat_digits by (auto simp: zpad_def ord_def)

lemma str_datetime_chars:
  assumes "c \<in> set (str_datetime d)"
  shows "ord c \<in> {32, 45, 46, 58} \<union> {48..57}"
proof -
  have z: "c \<in> set (zpad w n) \<Longrightarrow> ord c \<in> {32, 45, 46, 58} \<union> {48..57}" for w n
    using zpad_digits [of c w n] by simp
  have p: "ord CHR ''-'' = 45" "ord CHR '' '' = 32" "ord CHR '':'' = 58" "ord CHR ''.'' = 46"
    by (simp_all add: ord_def)
  from assms show ?thesis
    unfolding str_datetime_def Let_def
    by (auto split: prod.splits if_splits simp: p simp del: insert_iff Un_iff dest!: z)
qed

lemma jwt_encode_chars:
  assumes "jwt_encode claims key alg = Inr token" and "c \<in> set token"
  shows "ord c \<in> {45, 46, 95} \<union> {48..57} \<union> {65..90} \<union> {97..122}"
proof -
  from assms(1) have "jws_encode (json_dumps claims) key alg = Inr token"
    by (auto simp: jwt_encode_def split: option.splits pyval.splits)
  then obtain sg where "token = base64url_encode (jws_header alg) @ ''.''
      @ base64url_encode (json_dumps claims) @ ''.'' @ base64url_encode sg"
    by (auto simp: jws_encode_def Let_def and_then_def split: sum.splits)
  with assms(2) have "c = CHR ''.'' \<or> (\<exists>s. c \<in> set (base64url_encode s))"
    by auto
  then show ?thesis
  proof
    assume "c = CHR ''.''"
    then show ?thesis by (simp add: ord_def)
  next
    assume "\<exists>s. c \<in> set (base64url_encode s)"
    then obtain s where "c \<in> set (base64url_encode s)" ..
    from base64url_chars [OF this] show ?thesis by auto
  qed
qed

lemma mint_success:
  assumes "build_payload local now1 now2 = Inr claims"
      and "jwt_encode claims secret alg = Inr token"
  shows "mint secret alg local now1 now2 =
     \<lparr>stdout =
        [banner,
         lock_symbol @ '' FRESH JWT TOKEN GENERATED'',
         banner,
         ''Token: '' @ token,
         [],
         calendar_symbol @ '' Token Details:'',
         bullet @ '' Issued At: '' @ str_datetime now2,
         bullet @ '' Expires At: '' @ str_datetime (now1 + timedelta 365),
         bullet @ '' Valid For: 365 days'',
         bullet @ '' User: admin@xeno.com'',
         bullet @ '' Role: admin'',
         [],
         siren_symbol @ '' IMPORTANT:'',
         ''1. Use this as your ADMIN_JWT_TOKEN in Railway environment variables'',
         ''2. Make sure JWT_SECRET matches the secret_key used here'',
         ''3. Remove the old expired ADMIN_JWT_TOKEN from Railway'',
         banner],
      exit_status = 0, uncaught = None\<rparr>"
  using assms by (simp add: mint_cases print_all_report issued_at_def)

lemma mint_exit_0:
  assumes "exit_status (mint secret alg local now1 now2) = 0"
  shows "\<exists>claims token. build_payload local now1 now2 = Inr claims
           \<and> jwt_encode claims secret alg = Inr token"
  using assms by (auto simp: mint_cases crash_def split: sum.splits)

lemma build_payload_2024:
  "build_payload utc 1704067200000000 1704067200000000 =
     Inr [(''sub'', PyStr ''admin''),
          (''email'', PyStr ''admin@xeno.com''),
          (''username'', PyStr ''admin@xeno.com''),
          (''role'', PyStr ''admin''),
          (''exp'', PyInt 1735603200),
          (''iat'', PyInt 1704067200)]"
  by (simp add: build_payload_def expiration_time_2024 issued_at_def payload_eq
      int_timestamp_2024)

lemma jwt_encode_hmac_plain_key:
  assumes "map_of claims ''iss'' = None"
      and "\<forall>c \<in> set key. ord c < 128" and "CHR ''-'' \<notin> set key"
  shows "jwt_encode claims key ''HS256'' =
     Inr (base64url_encode (jws_header ''HS256'') @ ''.'' @ base64url_encode (json_dumps claims)
          @ ''.'' @ base64url_encode
              (hmac sha256 64 key
                 (base64url_encode (jws_header ''HS256'') @ ''.''
                  @ base64url_encode (json_dumps claims))))"
  using assms by (intro jwt_encode_hs256 prepare_key_hmac_no_hyphen) simp_all

lemma no_newline_token:
  assumes "jwt_encode claims key alg = Inr token"
  shows "CHR 0x0A \<notin> set token"
proof
  assume "CHR 0x0A \<in> set token"
  from jwt_encode_chars [OF assms this] show False
    by (simp add: ord_def)
qed

lemma no_newline_str_datetime: "CHR 0x0A \<notin> set (str_datetime d)"
proof
  assume "CHR 0x0A \<in> set (str_datetime d)"
  from str_datetime_chars [OF this] show False
    by (simp add: ord_def)
qed

lemma report_all_printed:
  "report token exp_time iat_time =
     map Inr
        [banner,
         lock_symbol @ '' FRESH JWT TOKEN GENERATED'',
         banner,
         ''Token: '' @ token,
         [],
         calendar_symbol @ '' Token Details:'',
         bullet @ '' Issued At: '' @ str_datetime iat_time,
         bullet @ '' Expires At: '' @ str_datetime exp_time,
         bullet @ '' Valid For: 365 days'',
         bullet @ '' User: admin@xeno.com'',
         bullet @ '' Role: admin'',
         [],
         siren_symbol @ '' IMPORTANT:'',
         ''1. Use this as your ADMIN_JWT_TOKEN in Railway environment variables'',
         ''2. Make sure JWT_SECRET matches the secret_key used here'',
         ''3. Remove the old expired ADMIN_JWT_TOKEN from Railway'',
         banner]"
  by (simp add: report_def getitem_user_data)

lemma mint_prints_report:
  assumes "build_payload local now1 now2 = Inr claims"
      and "jwt_encode claims secret alg = Inr token"
  shows "map Inr (stdout (mint secret alg local now1 now2)) = report token (now1 + timedelta 365) now2"
    and "exit_status (mint secret alg local now1 now2) = 0"
    and "uncaught (mint secret alg local now1 now2) = None"
  by (simp_all add: mint_success [OF assms] report_all_printed)

lemma secret_key_signs:
  assumes "build_payload local now1 now2 = Inr claims"
  shows "jwt_encode claims secret_key algorithm =
     Inr (base64url_encode (jws_header ''HS256'') @ ''.'' @ base64url_encode (json_dumps claims)
          @ ''.'' @ base64url_encode
              (hmac sha256 64 secret_key
                 (base64url_encode (jws_header ''HS256'') @ ''.''
                  @ base64url_encode (json_dumps claims))))"
  unfolding algorithm_def
  using build_payload_no_iss [OF assms] secret_key_plain
  by (intro jwt_encode_hmac_plain_key) simp_all


section \<open>Claims about signing and the report\<close>

text \<open>
  C6. When the signing step raises, the run ends there: nothing has been printed, the
  exit status is 1 and the exception is the diagnostic. Every \<^verbatim>\<open>print\<close> of the
  script comes after line 30.
\<close>

theorem signing_failure_prints_nothing:
  assumes "build_payload local now1 now2 = Inr claims"
      and "jwt_encode claims secret alg = Inl e"
  shows "mint secret alg local now1 now2 = \<lparr>stdout = [], exit_status = 1, uncaught = Some e\<rparr>"
  using assms by (simp add: mint_cases crash_def)

theorem signing_failure_prints_nothing_witness:
  "jwt_encode [(''sub'', PyStr ''admin''),
          (''email'', PyStr ''admin@xeno.com''),
          (''username'', PyStr ''admin@xeno.com''),
          (''role'', PyStr ''admin''),
          (''exp'', PyInt 1735603200),
          (''iat'', PyInt 1704067200)] secret_key ''HS999'' = Inl NotImplementedError
   \<and> mint secret_key ''HS999'' utc 1704067200000000 1704067200000000
       = \<lparr>stdout = [], exit_status = 1, uncaught = Some NotImplementedError\<rparr>"
proof -
  have s: "jwt_encode [(''sub'', PyStr ''admin''),
          (''email'', PyStr ''admin@xeno.com''),
          (''username'', PyStr ''admin@xeno.com''),
          (''role'', PyStr ''admin''),
          (''exp'', PyInt 1735603200),
          (''iat'', PyInt 1704067200)] secret_key ''HS999'' = Inl NotImplementedError"
    by (simp add: jwt_encode_def jws_encode_def get_algorithm_by_name_def Let_def)
  from signing_failure_prints_nothing [OF build_payload_2024 s] s show ?thesis
    by simp
qed

text \<open>
  C7. On a successful run the output is, in this order: a line of 60 equals signs, the
  title, the same banner, the token line, an empty line, the Token Details heading with
  five bulleted lines (issued-at, expiration, validity in days, user email, role), an
  empty line, the IMPORTANT heading with three numbered reminders, and the banner. No
  printed text contains a line feed, so each \<^verbatim>\<open>print\<close> is one line of output.
\<close>

theorem report_structure:
  assumes "exit_status (mint secret alg local now1 now2) = 0"
  shows "\<exists>claims token.
           build_payload local now1 now2 = Inr claims \<and>
           jwt_encode claims secret alg = Inr token \<and>
           stdout (mint secret alg local now1 now2) =
             [replicate 60 CHR ''='',
              lock_symbol @ '' FRESH JWT TOKEN GENERATED'',
              replicate 60 CHR ''='',
              ''Token: '' @ token,
              [],
              calendar_symbol @ '' Token Details:'',
              bullet @ '' Issued At: '' @ str_datetime now2,
              bullet @ '' Expires At: '' @ str_datetime (now1 + timedelta 365),
              bullet @ '' Valid For: 365 days'',
              bullet @ '' User: admin@xeno.com'',
              bullet @ '' Role: admin'',
              [],
              siren_symbol @ '' IMPORTANT:'',
              ''1. Use this as your ADMIN_JWT_TOKEN in Railway environment variables'',
              ''2. Make sure JWT_SECRET matches the secret_key used here'',
              ''3. Remove the old expired ADMIN_JWT_TOKEN from Railway'',
              replicate 60 CHR ''=''] \<and>
           (\<forall>line \<in> set (stdout (mint secret alg local now1 now2)). CHR 0x0A \<notin> set line)"
proof -
  from mint_exit_0 [OF assms] obtain claims token
    where c: "build_payload local now1 now2 = Inr claims"
      and t: "jwt_encode claims secret alg = Inr token"
    by blast
  have nl: "CHR 0x0A \<notin> set token" "CHR 0x0A \<notin> set (str_datetime now2)"
    "CHR 0x0A \<notin> set (str_datetime (now1 + timedelta 365))"
    using no_newline_token [OF t] no_newline_str_datetime by simp_all
  have out: "stdout (mint secret alg local now1 now2) =
             [replicate 60 CHR ''='',
              lock_symbol @ '' FRESH JWT TOKEN GENERATED'',
              replicate 60 CHR ''='',
              ''Token: '' @ token,
              [],
              calendar_symbol @ '' Token Details:'',
              bullet @ '' Issued At: '' @ str_datetime now2,
              bullet @ '' Expires At: '' @ str_datetime (now1 + timedelta 365),
              bullet @ '' Valid For: 365 days'',
              bullet @ '' User: admin@xeno.com'',
              bullet @ '' Role: admin'',
              [],
              siren_symbol @ '' IMPORTANT:'',
              ''1. Use this as your ADMIN_JWT_TOKEN in Railway environment variables'',
              ''2. Make sure JWT_SECRET matches the secret_key used here'',
              ''3. Remove the old expired ADMIN_JWT_TOKEN from Railway'',
              replicate 60 CHR ''='']"
    by (simp add: mint_success [OF c t] banner_def)
  have "\<forall>line \<in> set (stdout (mint secret alg local now1 now2)). CHR 0x0A \<notin> set line"
    unfolding out using nl
    by (simp add: lock_symbol_def calendar_symbol_def bullet_def siren_symbol_def)
  with c t out show ?thesis by blast
qed

theorem report_structure_witness:
  "exit_status (mint secret_key algorithm utc 1704067200000000 1704067200000000) = 0
   \<and> length (stdout (mint secret_key algorithm utc 1704067200000000 1704067200000000)) = 17
   \<and> stdout (mint secret_key algorithm utc 1704067200000000 1704067200000000) ! 8
       = bullet @ '' Valid For: 365 days''"
proof -
  have e: "exit_status (mint secret_key algorithm utc 1704067200000000 1704067200000000) = 0"
    using mint_prints_report(2) [OF build_payload_2024 secret_key_signs [OF build_payload_2024]] .
  from report_structure [OF e] e show ?thesis
    by auto
qed






end
